theory Spec2Isabelle
  imports Main "HOL-Library.Word"
begin

section \<open>The socket bridge: a TCP client and a UDP server relaying fixed-size packets\<close>

text \<open>
  The program is written against an asynchronous socket library: every operation
  (connect, read, write, receive-from, send-to) is started by the program and finished
  later, inside the event loop, by a completion handler that is given an error code.
  The embedding keeps that shape. The state of the two endpoint objects is a record;
  what the program does to the outside world is the chronological list of library calls
  and output lines it makes (the field \<open>trace\<close>); what the outside world does is a list
  of completion events handed to the event loop. The bodies of the constructors, of the
  member functions and of the completion handlers are translated one to one.
\<close>

subsection \<open>Packets, error codes, endpoints\<close>

type_synonym byte = "8 word"

type_synonym packet = "byte list"

definition packetSize :: nat where
  "packetSize = 56"

text \<open>An error code of the library: a category name and a value; value 0 is success.\<close>

datatype error_code = ErrorCode (category: string) (val: int)

definition failed :: "error_code \<Rightarrow> bool" where
  "failed ec = (val ec \<noteq> 0)"

definition digit :: "nat \<Rightarrow> char" where
  "digit d = ''0123456789'' ! d"

fun to_string :: "nat \<Rightarrow> string" where
  "to_string n = (if n < 10 then [digit n] else to_string (n div 10) @ [digit (n mod 10)])"

declare to_string.simps [simp del]

definition show_int :: "int \<Rightarrow> string" where
  "show_int i = (if i < 0 then ''-'' @ to_string (nat (- i)) else to_string (nat i))"

text \<open>The stream insertion of an error code prints the category, a colon and the value.\<close>

definition show_ec :: "error_code \<Rightarrow> string" where
  "show_ec ec = category ec @ '':'' @ show_int (val ec)"

datatype address = V4 "32 word" | V6 "128 word"

datatype endpoint = Endpoint (addr_of: address) (port_of: "16 word")

text \<open>An exception derived from \<open>std::exception\<close>, with the text \<open>what()\<close> returns.\<close>

datatype exn = Exception (what: string)

subsection \<open>The coordinator's configuration\<close>

record SocketBridge =
  tcpIp :: string
  tcpPort :: string
  udpIp :: string
  udpPort :: "32 word"

definition SocketBridge_ctor :: "string \<Rightarrow> 32 word \<Rightarrow> string \<Rightarrow> 32 word \<Rightarrow> SocketBridge" where
  "SocketBridge_ctor tcpIp' tcpPort' udpIp' udpPort' =
     \<lparr>tcpIp = tcpIp', tcpPort = to_string (unat tcpPort'), udpIp = udpIp', udpPort = udpPort'\<rparr>"

subsection \<open>The operating system and the library at start-up\<close>

text \<open>
  What the calls made before the event loop answer is not in the program; it is a
  parameter. \<open>resolve\<close>, \<open>from_string\<close>, the opening of the UDP socket and \<open>bind\<close>
  either throw or succeed; \<open>set_option\<close> reports through an error code. The two receive
  buffers are members that no constructor initialises: their first contents are
  arbitrary bytes.
\<close>

record os =
  resolve :: "string \<Rightarrow> string \<Rightarrow> exn + endpoint list"
  open_v4 :: "exn option"
  from_string :: "string \<Rightarrow> exn + address"
  set_option :: error_code
  message :: "error_code \<Rightarrow> string"
  bind :: "endpoint \<Rightarrow> exn option"
  tcp_garbage :: "nat \<Rightarrow> byte"
  udp_garbage :: "nat \<Rightarrow> byte"

subsection \<open>The state of the two endpoints\<close>

datatype sock = TCP | UDP

text \<open>
  Objects that hold a packet: the member \<open>recv_buffer_\<close> of each endpoint, and the
  parameter object \<open>message\<close> of each call of \<open>handle_write\<close> or \<open>handle_send\<close>. The
  parameter is passed by value, so every call has an object of its own, numbered in the
  order of the calls; it exists from the call to the return. The library's buffers are
  references to such objects, not copies of their bytes. The store \<open>mem\<close> maps an
  object that exists to its bytes and every other address to \<open>None\<close>.
\<close>

datatype addr = RecvBuf sock | Arg nat

datatype tcp_state = Connecting | Connected | Unconnected | Closed

datatype pointer = Unset | Set

text \<open>What the program does: output lines and calls into the library.\<close>

datatype op =
    Cout string
  | Cerr string
  | AsyncConnect "endpoint list"
  | AsyncRead
  | AsyncWrite addr
  | AsyncReceiveFrom
  | AsyncSendTo addr endpoint
  | Close sock

record bridge =
  mem :: "addr \<Rightarrow> packet option"
  arg_count :: nat
  tcp_socket :: tcp_state
  udp_open :: bool
  remote_endpoint :: endpoint
  udpServer :: pointer
  tcpServer :: pointer
  connect_pending :: bool
  tcp_reads :: nat
  udp_receives :: nat
  tcp_writes :: "(addr \<times> bool) list"
  udp_sends :: "(addr \<times> endpoint) list"
  trace :: "op list"

text \<open>
  \<open>tcp_reads\<close> and \<open>udp_receives\<close> count the reads and receives that were started and
  have not completed. \<open>tcp_writes\<close> and \<open>udp_sends\<close> list the writes and sends in
  flight, oldest first, each with the object its buffer refers to; a write also records
  whether the socket was without a connection when the write was started, a send the
  destination it was started with (the library copies the destination endpoint).
\<close>

definition emit :: "op \<Rightarrow> bridge \<Rightarrow> bridge" where
  "emit x s = s\<lparr>trace := trace s @ [x]\<rparr>"

text \<open>Before any constructor has run: no socket is open, no pointer is set.\<close>

definition initial :: "os \<Rightarrow> bridge" where
  "initial w =
     \<lparr>mem = (\<lambda>a. case a of
                 RecvBuf TCP \<Rightarrow> Some (map (tcp_garbage w) [0..<packetSize])
               | RecvBuf UDP \<Rightarrow> Some (map (udp_garbage w) [0..<packetSize])
               | Arg n \<Rightarrow> None),
      arg_count = 0,
      tcp_socket = Closed,
      udp_open = False,
      remote_endpoint = Endpoint (V4 0) 0,
      udpServer = Unset,
      tcpServer = Unset,
      connect_pending = False,
      tcp_reads = 0,
      udp_receives = 0,
      tcp_writes = [],
      udp_sends = [],
      trace = []\<rparr>"

subsection \<open>The TCP client\<close>

text \<open>\<open>socket_.close()\<close>; closing a socket that is not open does nothing and succeeds.\<close>

definition close_tcp :: "bridge \<Rightarrow> bridge" where
  "close_tcp s = emit (Close TCP) (s\<lparr>tcp_socket := Closed\<rparr>)"

text \<open>\<open>TCP_Client::start_read\<close>: start a read of \<open>packetSize\<close> bytes into \<open>recv_buffer_\<close>.\<close>

definition TCP_Client_start_read :: "bridge \<Rightarrow> bridge" where
  "TCP_Client_start_read s = emit AsyncRead (s\<lparr>tcp_reads := Suc (tcp_reads s)\<rparr>)"

text \<open>
  \<open>TCP_Client::handle_write\<close>: the argument is copied into the parameter object, a
  write of \<open>packetSize\<close> bytes is started with a buffer that refers to that object, and
  the function returns, which ends the life of the parameter object while the write is
  in flight. Nothing is tested first.
\<close>

definition not_connected :: "bridge \<Rightarrow> bool" where
  "not_connected s = (tcp_socket s = Unconnected \<or> tcp_socket s = Closed)"

definition TCP_Client_handle_write :: "packet \<Rightarrow> bridge \<Rightarrow> bridge" where
  "TCP_Client_handle_write message' s =
     (let a = Arg (arg_count s);
          s1 = s\<lparr>mem := (mem s)(a \<mapsto> message'), arg_count := Suc (arg_count s)\<rparr>;
          s2 = emit (AsyncWrite a) (s1\<lparr>tcp_writes := tcp_writes s1 @ [(a, not_connected s1)]\<rparr>)
      in s2\<lparr>mem := (mem s2)(a := None)\<rparr>)"

text \<open>\<open>TCP_Client::setUdp\<close>.\<close>

definition setUdp :: "bridge \<Rightarrow> bridge" where
  "setUdp s = s\<lparr>udpServer := Set\<rparr>"

text \<open>The constructor of \<open>TCP_Client\<close>: the socket is created and a connect is started.\<close>

definition TCP_Client_ctor :: "endpoint list \<Rightarrow> bridge \<Rightarrow> bridge" where
  "TCP_Client_ctor endpoint' s =
     emit (AsyncConnect endpoint') (s\<lparr>tcp_socket := Connecting, connect_pending := True\<rparr>)"

subsection \<open>The UDP server\<close>

text \<open>\<open>UDP_Server::start_read\<close>: start a receive into \<open>recv_buffer_\<close>; the sender's
  endpoint is to be stored in \<open>remote_endpoint\<close>.\<close>

definition UDP_Server_start_read :: "bridge \<Rightarrow> bridge" where
  "UDP_Server_start_read s = emit AsyncReceiveFrom (s\<lparr>udp_receives := Suc (udp_receives s)\<rparr>)"

text \<open>
  \<open>UDP_Server::handle_send\<close>: the argument is copied into the parameter object, a send
  to \<open>remote_endpoint\<close> is started with a buffer that refers to that object, and the
  function returns, which ends the life of the parameter object while the send is in
  flight.
\<close>

definition UDP_Server_handle_send :: "packet \<Rightarrow> bridge \<Rightarrow> bridge" where
  "UDP_Server_handle_send message' s =
     (let a = Arg (arg_count s);
          s1 = s\<lparr>mem := (mem s)(a \<mapsto> message'), arg_count := Suc (arg_count s)\<rparr>;
          s2 = emit (AsyncSendTo a (remote_endpoint s1))
                 (s1\<lparr>udp_sends := udp_sends s1 @ [(a, remote_endpoint s1)]\<rparr>)
      in s2\<lparr>mem := (mem s2)(a := None)\<rparr>)"

text \<open>\<open>UDP_Server::setTcp\<close>.\<close>

definition setTcp :: "bridge \<Rightarrow> bridge" where
  "setTcp s = s\<lparr>tcpServer := Set\<rparr>"

text \<open>
  The constructor of \<open>UDP_Server\<close>. The members are initialised in the order of their
  declaration: the socket is opened first, then the host is parsed. The port, an
  unsigned int, is narrowed to the endpoint's 16-bit port. An exception leaves with the
  state in which it was thrown, so that the lines already printed are kept.
\<close>

definition UDP_Server_ctor :: "os \<Rightarrow> string \<Rightarrow> 32 word \<Rightarrow> bridge \<Rightarrow> (exn \<times> bridge) + bridge" where
  "UDP_Server_ctor w host port s =
     (case open_v4 w of
        Some e \<Rightarrow> Inl (e, s)
      | None \<Rightarrow>
         (case from_string w host of
            Inl e \<Rightarrow> Inl (e, s)
          | Inr a \<Rightarrow>
             (let s1 = s\<lparr>udp_open := True, remote_endpoint := Endpoint a (ucast port)\<rparr>;
                  s2 = emit (Cout ''SocketBridge: UDP Server connected'') s1;
                  ec = set_option w;
                  s3 = (if failed ec then emit (Cerr (message w ec)) s2 else s2)
              in case bind w (remote_endpoint s3) of
                   Some e \<Rightarrow> Inl (e, s3)
                 | None \<Rightarrow> Inr (UDP_Server_start_read s3))))"

subsection \<open>Completions\<close>

text \<open>
  A completion event carries the error code given to the handler; a read or a receive
  also carries the bytes that arrived, a receive the endpoint of the sender.
\<close>

datatype event =
    ConnectDone error_code
  | TcpReadDone error_code "byte list"
  | TcpWriteDone error_code
  | UdpRecvDone error_code endpoint "byte list"
  | UdpSendDone error_code

text \<open>
  Only an operation in flight can complete. Beyond that, three facts of the library are
  used: the composed read completes without an error only when the whole buffer has been
  filled; a write started on a socket without a connection completes with an error; a
  receive that fails delivers no bytes.
\<close>

fun enabled :: "event \<Rightarrow> bridge \<Rightarrow> bool" where
  "enabled (ConnectDone ec) s = connect_pending s"
| "enabled (TcpReadDone ec data) s =
     (0 < tcp_reads s \<and> length data \<le> packetSize \<and> (\<not> failed ec \<longrightarrow> length data = packetSize))"
| "enabled (TcpWriteDone ec) s =
     (case tcp_writes s of [] \<Rightarrow> False | (a, doomed) # ws \<Rightarrow> doomed \<longrightarrow> failed ec)"
| "enabled (UdpRecvDone ec sender data) s = (0 < udp_receives s \<and> (failed ec \<longrightarrow> data = []))"
| "enabled (UdpSendDone ec) s = (udp_sends s \<noteq> [])"

text \<open>
  The bytes that arrived overwrite the front of the receive buffer; the rest of the
  buffer keeps what it held. A datagram longer than the buffer is cut.
\<close>

definition recv_into :: "packet \<Rightarrow> byte list \<Rightarrow> packet" where
  "recv_into buf data = take packetSize (data @ drop (length data) buf)"

text \<open>
  What the library has done when it calls the handler: the operation is no longer in
  flight, the bytes are in the buffer, and a successful receive has stored the sender
  in the endpoint object it was given, which is \<open>remote_endpoint\<close>.
\<close>

fun complete :: "event \<Rightarrow> bridge \<Rightarrow> bridge" where
  "complete (ConnectDone ec) s =
     s\<lparr>connect_pending := False,
       tcp_socket := (if failed ec then Unconnected else Connected)\<rparr>"
| "complete (TcpReadDone ec data) s =
     s\<lparr>tcp_reads := tcp_reads s - 1,
       mem := (mem s)(RecvBuf TCP :=
                map_option (\<lambda>buf. recv_into buf data) (mem s (RecvBuf TCP)))\<rparr>"
| "complete (TcpWriteDone ec) s = s\<lparr>tcp_writes := tl (tcp_writes s)\<rparr>"
| "complete (UdpRecvDone ec sender data) s =
     s\<lparr>udp_receives := udp_receives s - 1,
       mem := (mem s)(RecvBuf UDP :=
                map_option (\<lambda>buf. recv_into buf data) (mem s (RecvBuf UDP))),
       remote_endpoint := (if failed ec then remote_endpoint s else sender)\<rparr>"
| "complete (UdpSendDone ec) s = s\<lparr>udp_sends := tl (udp_sends s)\<rparr>"

text \<open>
  Calling a member function through a pointer that was never set is a fault, and so is
  copying from an object that does not exist.
\<close>

datatype fault = NullDeref | DeadObject

text \<open>
  The five completion handlers, in the order of the source: connect (in the
  constructor of \<open>TCP_Client\<close>), TCP read, TCP write, UDP receive, UDP send. The
  handlers of the read and of the receive never look at the length.
\<close>

fun handler :: "event \<Rightarrow> bridge \<Rightarrow> fault + bridge" where
  "handler (ConnectDone ec) s =
     (if \<not> failed ec
      then Inr (TCP_Client_start_read (emit (Cout ''SocketBridge: TCP client connected'') s))
      else Inr (emit (Cerr (''SocketBridge: tcp failed to connect: '' @ show_ec ec)) s))"
| "handler (TcpReadDone ec data) s =
     (if \<not> failed ec
      then (case udpServer s of
              Unset \<Rightarrow> Inl NullDeref
            | Set \<Rightarrow>
               (case mem s (RecvBuf TCP) of
                  None \<Rightarrow> Inl DeadObject
                | Some recv_buffer \<Rightarrow>
                    Inr (TCP_Client_start_read (UDP_Server_handle_send recv_buffer s))))
      else Inr (close_tcp (emit (Cerr (''SocketBridge: TCP failed read: '' @ show_ec ec)) s)))"
| "handler (TcpWriteDone ec) s =
     (if failed ec
      then Inr (close_tcp (emit (Cerr (''SocketBridge: TCP writing failed: '' @ show_ec ec)) s))
      else Inr s)"
| "handler (UdpRecvDone ec sender data) s =
     (if \<not> failed ec
      then (case tcpServer s of
              Unset \<Rightarrow> Inl NullDeref
            | Set \<Rightarrow>
               (case mem s (RecvBuf UDP) of
                  None \<Rightarrow> Inl DeadObject
                | Some recv_buffer \<Rightarrow>
                    Inr (UDP_Server_start_read (TCP_Client_handle_write recv_buffer s))))
      else Inr (emit (Cerr (''SocketBridge: UDP reading failed: '' @ show_ec ec)) s))"
| "handler (UdpSendDone ec) s =
     (if failed ec
      then Inr (emit (Cerr (''SocketBridge: UDP sending failed: '' @ show_ec ec)) s)
      else Inr s)"

definition handle :: "event \<Rightarrow> bridge \<Rightarrow> fault + bridge" where
  "handle e s = handler e (complete e s)"

subsection \<open>The event loop and the coordinator\<close>

text \<open>
  \<open>io_service.run()\<close> calls the handlers of the operations that complete, one at a
  time. The schedule is the list of completions the outside world offers; one that names
  no operation in flight cannot happen and is passed over. A fault ends the run.
\<close>

fun run :: "event list \<Rightarrow> bridge \<Rightarrow> fault + bridge" where
  "run [] s = Inr s"
| "run (e # es) s =
     (if enabled e s
      then (case handle e s of Inl f \<Rightarrow> Inl f | Inr s' \<Rightarrow> run es s')
      else run es s)"

text \<open>
  The body of the \<open>try\<close> block of \<open>startConnections\<close> up to the call of the event loop:
  the first line of output, the resolution of the TCP peer, the two constructors and the
  exchange of the pointers.
\<close>

definition connect_sockets :: "SocketBridge \<Rightarrow> os \<Rightarrow> (exn \<times> bridge) + bridge" where
  "connect_sockets this w =
     (let s0 = emit (Cout (''Starting SocketBridge, connecting TCP '' @ tcpIp this @ '':'' @ tcpPort this
                            @ '' to UDP '' @ udpIp this @ '':'' @ to_string (unat (udpPort this))))
                 (initial w)
      in case resolve w (tcpIp this) (tcpPort this) of
           Inl e \<Rightarrow> Inl (e, s0)
         | Inr endpoint_iterator \<Rightarrow>
            (case UDP_Server_ctor w (udpIp this) (udpPort this) s0 of
               Inl x \<Rightarrow> Inl x
             | Inr s1 \<Rightarrow> Inr (setTcp (setUdp (TCP_Client_ctor endpoint_iterator s1)))))"

text \<open>
  \<open>startConnections\<close>: an exception thrown in the \<open>try\<close> block is caught and its text is
  printed on the error stream. The result is everything the program has done once the
  completions of the schedule have been delivered.
\<close>

definition startConnections :: "SocketBridge \<Rightarrow> os \<Rightarrow> event list \<Rightarrow> fault + op list" where
  "startConnections this w schedule =
     (case connect_sockets this w of
        Inl (e, s) \<Rightarrow> Inr (trace (emit (Cerr (what e)) s))
      | Inr s \<Rightarrow> (case run schedule s of Inl f \<Rightarrow> Inl f | Inr s' \<Rightarrow> Inr (trace s')))"

subsection \<open>Observing a result\<close>

definition trace_of :: "fault + bridge \<Rightarrow> op list option" where
  "trace_of r = (case r of Inl f \<Rightarrow> None | Inr s \<Rightarrow> Some (trace s))"

text \<open>
  What holds of the two endpoints from the moment the event loop is entered: both
  pointers are set, both receive buffers exist, the UDP socket is open and was never
  closed, each endpoint has at most one read or receive in flight, and the TCP client
  has none while its connect is in flight.
\<close>

definition session_inv :: "bridge \<Rightarrow> bool" where
  "session_inv s =
     (udpServer s = Set \<and> tcpServer s = Set \<and>
      mem s (RecvBuf TCP) \<noteq> None \<and> mem s (RecvBuf UDP) \<noteq> None \<and>
      udp_open s \<and> Close UDP \<notin> set (trace s) \<and>
      tcp_reads s \<le> 1 \<and> udp_receives s \<le> 1 \<and> (connect_pending s \<longrightarrow> tcp_reads s = 0))"

subsection \<open>A concrete session\<close>

text \<open>
  The bridge of the specification's scenarios, TCP peer 127.0.0.1:9000 and UDP
  127.0.0.1:9001, on a system where every start-up call succeeds; the same system with a
  bind that fails; a second UDP host, 10.0.0.2:5555.
\<close>

definition success :: error_code where
  "success = ErrorCode ''system'' 0"

definition refused :: error_code where
  "refused = ErrorCode ''system'' 111"

definition eof :: error_code where
  "eof = ErrorCode ''asio.misc'' 2"

definition loopback :: address where
  "loopback = V4 0x7F000001"

definition loopback_bridge :: SocketBridge where
  "loopback_bridge = SocketBridge_ctor ''127.0.0.1'' 9000 ''127.0.0.1'' 9001"

definition loopback_os :: os where
  "loopback_os =
     \<lparr>resolve = (\<lambda>h p. Inr [Endpoint loopback 9000]),
      open_v4 = None,
      from_string = (\<lambda>h. Inr loopback),
      set_option = success,
      message = (\<lambda>ec. ''Unknown error''),
      bind = (\<lambda>e. None),
      tcp_garbage = (\<lambda>i. 0),
      udp_garbage = (\<lambda>i. 0)\<rparr>"

definition busy_os :: os where
  "busy_os = loopback_os\<lparr>bind := (\<lambda>e. Some (Exception ''bind: Address already in use''))\<rparr>"

definition stranger :: endpoint where
  "stranger = Endpoint (V4 0x0A000002) 5555"

text \<open>The endpoints as the event loop of the concrete session finds them.\<close>

definition wired :: bridge where
  "wired = (case connect_sockets loopback_bridge loopback_os of Inl (e, s) \<Rightarrow> s | Inr s \<Rightarrow> s)"

text \<open>The same endpoints after the connect has succeeded, and after it has failed.\<close>

definition established :: bridge where
  "established = (case run [ConnectDone success] wired of Inl f \<Rightarrow> wired | Inr s \<Rightarrow> s)"


definition orphaned :: bridge where
  "orphaned = (case run [ConnectDone refused] wired of Inl f \<Rightarrow> wired | Inr s \<Rightarrow> s)"

text \<open>
  The endpoints after a first datagram, of 56 bytes 7, has been received from the second
  host while the connect is still in flight.
\<close>

definition queued :: bridge where
  "queued =
     (case handle (UdpRecvDone success stranger (replicate 56 7)) wired of
        Inl f \<Rightarrow> wired
      | Inr s \<Rightarrow> s)"

section \<open>Properties\<close>

subsection \<open>Unfolding, the concrete session, and what every session keeps\<close>

lemmas step_defs = handle_def emit_def TCP_Client_start_read_def UDP_Server_start_read_def
  TCP_Client_handle_write_def UDP_Server_handle_send_def close_tcp_def Let_def

lemmas setup_defs = connect_sockets_def UDP_Server_ctor_def TCP_Client_ctor_def setUdp_def
  setTcp_def initial_def emit_def UDP_Server_start_read_def Let_def

lemmas example_defs = loopback_bridge_def loopback_os_def busy_os_def SocketBridge_ctor_def
  to_string.simps digit_def success_def refused_def eof_def failed_def loopback_def stranger_def
  packetSize_def

lemma connect_sockets_loopback: "connect_sockets loopback_bridge loopback_os = Inr wired"
  by (simp add: wired_def setup_defs example_defs)

lemma wired_facts:
  "udpServer wired = Set" "tcpServer wired = Set" "arg_count wired = 0"
  "remote_endpoint wired = Endpoint loopback 9001" "tcp_reads wired = 0"
  "udp_receives wired = 1" "connect_pending wired" "tcp_socket wired = Connecting"
  "tcp_writes wired = []" "udp_sends wired = []"
  "mem wired (RecvBuf TCP) = Some (replicate 56 0)"
  "mem wired (RecvBuf UDP) = Some (replicate 56 0)" "mem wired (Arg n) = None"
  by (simp_all add: wired_def setup_defs example_defs map_replicate_const)

lemma run_connect_wired: "run [ConnectDone success] wired = Inr established"
  by (simp add: established_def step_defs wired_facts success_def failed_def)

lemma established_facts:
  "udpServer established = Set" "tcpServer established = Set" "arg_count established = 0"
  "remote_endpoint established = Endpoint loopback 9001" "tcp_reads established = 1"
  "udp_receives established = 1" "tcp_socket established = Connected"
  "tcp_writes established = []" "udp_sends established = []"
  "mem established (RecvBuf TCP) = Some (replicate 56 0)"
  "mem established (RecvBuf UDP) = Some (replicate 56 0)" "mem established (Arg n) = None"
  by (simp_all add: established_def step_defs wired_facts success_def failed_def)

lemma run_refused_wired: "run [ConnectDone refused] wired = Inr orphaned"
  by (simp add: orphaned_def step_defs wired_facts refused_def failed_def)

lemma orphaned_facts:
  "udpServer orphaned = Set" "tcpServer orphaned = Set" "arg_count orphaned = 0"
  "tcp_reads orphaned = 0" "udp_receives orphaned = 1" "tcp_socket orphaned = Unconnected"
  "tcp_writes orphaned = []" "udp_sends orphaned = []"
  "mem orphaned (RecvBuf TCP) = Some (replicate 56 0)"
  "mem orphaned (RecvBuf UDP) = Some (replicate 56 0)" "mem orphaned (Arg n) = None"
  by (simp_all add: orphaned_def step_defs wired_facts refused_def failed_def)

lemma recv_into_replicate: "recv_into buf (replicate 56 x) = replicate 56 x"
  by (simp add: recv_into_def packetSize_def)

lemma first_datagram: "handle (UdpRecvDone success stranger (replicate 56 7)) wired = Inr queued"
  by (simp add: queued_def step_defs wired_facts success_def failed_def)

lemma queued_facts:
  "udpServer queued = Set" "tcpServer queued = Set" "arg_count queued = 1"
  "tcp_reads queued = 0" "udp_receives queued = 1" "connect_pending queued"
  "tcp_socket queued = Connecting" "tcp_writes queued = [(Arg 0, False)]"
  "udp_sends queued = []" "trace queued = trace wired @ [AsyncWrite (Arg 0), AsyncReceiveFrom]"
  "mem queued (RecvBuf UDP) = Some (replicate 56 7)" "mem queued (Arg n) = None"
  by (simp_all add: queued_def step_defs wired_facts success_def failed_def not_connected_def
      recv_into_replicate)

text \<open>The state in which the event loop starts satisfies \<open>session_inv\<close>, and every
  completion that can happen keeps it; in particular no handler faults.\<close>

lemma connect_sockets_inv: "connect_sockets this w = Inr s \<Longrightarrow> session_inv s"
  by (auto simp: setup_defs session_inv_def split: sum.splits option.splits if_splits)

lemma handle_inv:
  "enabled e s \<Longrightarrow> session_inv s \<Longrightarrow> \<exists>s'. handle e s = Inr s' \<and> session_inv s'"
  by (cases e) (auto simp: step_defs session_inv_def)

lemma run_inv: "session_inv s \<Longrightarrow> \<exists>s'. run es s = Inr s' \<and> session_inv s'"
proof (induction es arbitrary: s)
  case Nil
  then show ?case by simp
next
  case (Cons e es)
  show ?case
  proof (cases "enabled e s")
    case True
    from handle_inv [OF True Cons.prems] obtain s1
      where h: "handle e s = Inr s1" "session_inv s1" by blast
    from Cons.IH [OF h(2)] True h(1) show ?thesis by simp
  next
    case False
    with Cons.IH [OF Cons.prems] show ?thesis by simp
  qed
qed

lemma reachable_inv:
  "connect_sockets this w = Inr s0 \<Longrightarrow> run schedule s0 = Inr s \<Longrightarrow> session_inv s"
  using run_inv [OF connect_sockets_inv, of this w s0 schedule] by auto

text \<open>An exception can leave the start-up only before any operation has been started.\<close>

lemma connect_sockets_throws_before_any_operation:
  "connect_sockets this w = Inl (e, s) \<Longrightarrow> set (trace s) \<subseteq> range Cout \<union> range Cerr"
  by (auto simp: setup_defs split: sum.splits option.splits if_splits)

text \<open>Once no receive is in flight on the UDP socket, none is ever started again.\<close>

lemma handle_udp_stopped:
  "enabled e s \<Longrightarrow> udp_receives s = 0 \<Longrightarrow> handle e s = Inr s' \<Longrightarrow> udp_receives s' = 0"
  by (cases e) (auto simp: step_defs split: if_splits pointer.splits option.splits)

lemma run_udp_stopped:
  "udp_receives s = 0 \<Longrightarrow> run es s = Inr s' \<Longrightarrow> udp_receives s' = 0"
proof (induction es arbitrary: s)
  case Nil
  then show ?case by simp
next
  case (Cons e es)
  show ?case
  proof (cases "enabled e s")
    case True
    with Cons.prems obtain s1 where h: "handle e s = Inr s1" and r: "run es s1 = Inr s'"
      by (auto split: sum.splits)
    from Cons.IH [OF handle_udp_stopped [OF True Cons.prems(1) h] r] show ?thesis .
  next
    case False
    with Cons.prems have "run es s = Inr s'" by simp
    from Cons.IH [OF Cons.prems(1) this] show ?thesis .
  qed
qed

text \<open>Were a pointer not set, the forwarding call would be a fault: the invariant is needed.\<close>

lemma unset_pointer_is_a_fault:
  "\<not> failed ec \<Longrightarrow>
   handle (TcpReadDone ec P) (s\<lparr>udpServer := Unset\<rparr>) = Inl NullDeref
   \<and> handle (UdpRecvDone ec sender P) (s\<lparr>tcpServer := Unset\<rparr>) = Inl NullDeref"
  by (simp add: step_defs)

text \<open>A full packet replaces the whole receive buffer.\<close>

lemma recv_into_full: "length P = packetSize \<Longrightarrow> recv_into buf P = P"
  by (simp add: recv_into_def)

subsection \<open>The peer of the UDP sends\<close>

text \<open>
  Against claim C1 as it is worded (every UDP send goes to the peer given at
  configuration time, whatever the senders of earlier datagrams): the bridge is
  configured for 127.0.0.1:9001, a datagram arrives from 10.0.0.2:5555, and the packet
  read from TCP afterwards is sent to 10.0.0.2:5555. The receive was started with
  \<open>remote_endpoint_\<close> as the object that takes the sender's endpoint.
\<close>

theorem udp_send_fixed_peer_counterexample:
  "startConnections loopback_bridge loopback_os
      [UdpRecvDone success stranger (replicate 56 1), ConnectDone success,
       TcpReadDone success (replicate 56 7)]
    = Inr [Cout ''Starting SocketBridge, connecting TCP 127.0.0.1:9000 to UDP 127.0.0.1:9001'',
           Cout ''SocketBridge: UDP Server connected'',
           AsyncReceiveFrom,
           AsyncConnect [Endpoint (V4 0x7F000001) 9000],
           AsyncWrite (Arg 0),
           AsyncReceiveFrom,
           Cout ''SocketBridge: TCP client connected'',
           AsyncRead,
           AsyncSendTo (Arg 1) (Endpoint (V4 0x0A000002) 5555),
           AsyncRead]
   \<and> from_string loopback_os (udpIp loopback_bridge) = Inr (V4 0x7F000001)
   \<and> udpPort loopback_bridge = 9001
   \<and> Endpoint (V4 0x0A000002) 5555 \<noteq> Endpoint (V4 0x7F000001) 9001"
  by (simp add: startConnections_def setup_defs step_defs example_defs)

text \<open>
  Claim C1, amended: every UDP send is a send-to the value \<open>remote_endpoint_\<close> holds
  when the send is started. That value is the endpoint made of the configured host and
  of the configured port narrowed to 16 bits when the event loop starts; a receive that
  completes without error replaces it by the sender of the datagram; nothing else changes
  it.
\<close>

theorem udp_send_destination:
  "(\<forall>s0. connect_sockets this w = Inr s0 \<longrightarrow>
       (\<exists>a. from_string w (udpIp this) = Inr a
          \<and> remote_endpoint s0 = Endpoint a (ucast (udpPort this))))
   \<and> (\<forall>s'. handle e s = Inr s' \<longrightarrow>
       (\<exists>new. trace s' = trace s @ new
          \<and> (\<forall>a d. AsyncSendTo a d \<in> set new \<longrightarrow> d = remote_endpoint s))
       \<and> remote_endpoint s' =
           (case e of
              UdpRecvDone ec sender data \<Rightarrow> if failed ec then remote_endpoint s else sender
            | _ \<Rightarrow> remote_endpoint s))"
proof (intro conjI allI impI)
  fix s0 assume "connect_sockets this w = Inr s0"
  then show "\<exists>a. from_string w (udpIp this) = Inr a
          \<and> remote_endpoint s0 = Endpoint a (ucast (udpPort this))"
    by (auto simp: setup_defs split: sum.splits option.splits if_splits)
next
  fix s' assume "handle e s = Inr s'"
  then show "\<exists>new. trace s' = trace s @ new
          \<and> (\<forall>a d. AsyncSendTo a d \<in> set new \<longrightarrow> d = remote_endpoint s)"
    by (cases e) (auto simp: step_defs split: if_splits pointer.splits option.splits)
next
  fix s' assume "handle e s = Inr s'"
  then show "remote_endpoint s' =
           (case e of
              UdpRecvDone ec sender data \<Rightarrow> if failed ec then remote_endpoint s else sender
            | _ \<Rightarrow> remote_endpoint s)"
    by (cases e) (auto simp: step_defs split: if_splits pointer.splits option.splits)
qed

theorem udp_send_destination_witness:
  "remote_endpoint wired = Endpoint loopback (ucast (udpPort loopback_bridge))
   \<and> (\<exists>s'. handle (UdpRecvDone success stranger [1, 2, 3]) wired = Inr s'
         \<and> remote_endpoint s' = stranger)"
proof -
  have h: "\<exists>s'. handle (UdpRecvDone success stranger [1, 2, 3]) wired = Inr s'"
    by (simp add: step_defs wired_facts success_def failed_def)
  from udp_send_destination [of loopback_bridge loopback_os "UdpRecvDone success stranger [1, 2, 3]" wired]
    connect_sockets_loopback h
  show ?thesis by (auto simp: loopback_os_def success_def failed_def)
qed

subsection \<open>Forwarding\<close>

text \<open>
  In every state a session can reach, a packet of exactly \<open>packetSize\<close> bytes received
  without error fills the receive buffer, and the handler starts exactly one write (or
  one send-to) and then the next receive (or read). The buffer of the operation started
  refers to the parameter object of the call, which no longer exists when the handler
  has returned.
\<close>

lemma forward_started_once:
  assumes "connect_sockets this w = Inr s0" and "run schedule s0 = Inr s"
    and "length P = packetSize" and "\<not> failed ec"
  shows "(\<exists>s'. handle (UdpRecvDone ec sender P) s = Inr s'
            \<and> trace s' = trace s @ [AsyncWrite (Arg (arg_count s)), AsyncReceiveFrom]
            \<and> tcp_writes s' = tcp_writes s @ [(Arg (arg_count s), not_connected s)]
            \<and> mem s' (RecvBuf UDP) = Some P
            \<and> mem s' (Arg (arg_count s)) = None)
       \<and> (\<exists>s'. handle (TcpReadDone ec P) s = Inr s'
            \<and> trace s' = trace s @ [AsyncSendTo (Arg (arg_count s)) (remote_endpoint s), AsyncRead]
            \<and> udp_sends s' = udp_sends s @ [(Arg (arg_count s), remote_endpoint s)]
            \<and> mem s' (RecvBuf TCP) = Some P
            \<and> mem s' (Arg (arg_count s)) = None)"
proof -
  from reachable_inv [OF assms(1,2)] obtain bt bu
    where "udpServer s = Set" "tcpServer s = Set"
      "mem s (RecvBuf TCP) = Some bt" "mem s (RecvBuf UDP) = Some bu"
    by (auto simp: session_inv_def)
  with assms(3,4) show ?thesis
    by (simp add: step_defs recv_into_full not_connected_def)
qed

text \<open>
  Claim C2 asks that for every packet of exactly \<open>packetSize\<close> bytes received on one
  endpoint the other endpoint issues exactly one write or send of exactly those bytes,
  unmodified. The code does not keep it where the operation is performed after the
  forwarding call has returned. A datagram of 56 bytes 7 arrives while the TCP connect
  is still in flight: the handler starts the one write, which waits behind the connect,
  and returns; the write in flight then refers to the parameter object \<open>Arg 0\<close>, which
  no longer exists, so the bytes it will transmit are no longer those of any object of
  the program.
\<close>

theorem queued_write_refers_to_destroyed_object:
  "handle (UdpRecvDone success stranger (replicate 56 7)) wired = Inr queued
   \<and> trace queued = trace wired @ [AsyncWrite (Arg 0), AsyncReceiveFrom]
   \<and> connect_pending queued
   \<and> tcp_writes queued = [(Arg 0, False)]
   \<and> mem queued (RecvBuf UDP) = Some (replicate 56 7)
   \<and> mem queued (Arg 0) = None"
  by (simp add: first_datagram queued_facts)

subsection \<open>Short frames\<close>

text \<open>
  A TCP read completion that yields fewer than \<open>packetSize\<close> bytes carries an error
  code and is treated as a transport error: a line on the error stream, the socket
  closed, nothing forwarded, no new read. A UDP receive completion that carries an error
  code is treated as a transport error: a line on the error stream, nothing forwarded,
  no new receive.
\<close>

lemma error_completion_not_forwarded:
  "(enabled (TcpReadDone ec data) s \<and> length data < packetSize \<longrightarrow>
      failed ec
      \<and> handle (TcpReadDone ec data) s =
          Inr (s\<lparr>tcp_reads := tcp_reads s - 1,
                 mem := (mem s)(RecvBuf TCP :=
                          map_option (\<lambda>buf. recv_into buf data) (mem s (RecvBuf TCP))),
                 tcp_socket := Closed,
                 trace := trace s @ [Cerr (''SocketBridge: TCP failed read: '' @ show_ec ec),
                                     Close TCP]\<rparr>))
   \<and> (failed ec \<longrightarrow>
      handle (UdpRecvDone ec sender data) s =
          Inr (s\<lparr>udp_receives := udp_receives s - 1,
                 mem := (mem s)(RecvBuf UDP :=
                          map_option (\<lambda>buf. recv_into buf data) (mem s (RecvBuf UDP))),
                 trace := trace s @ [Cerr (''SocketBridge: UDP reading failed: '' @ show_ec ec)]\<rparr>))"
  by (auto simp: step_defs)

text \<open>
  Claim C3 asks that every read or receive completion that yields fewer than
  \<open>packetSize\<close> bytes be treated as a transport error and not forwarded, on the TCP
  path and on the UDP path. The TCP path does so, the UDP path does not: its handler
  never looks at the length. After the datagram of 56 bytes 7, a datagram of 3 bytes is
  received without error; the receive buffer then holds the 3 new bytes followed by 53
  bytes of the earlier datagram, and the handler starts a TCP write of a copy of the
  whole buffer and the next receive, with no line on the error stream.
\<close>

theorem short_datagram_is_forwarded:
  "length [1, 2, 3 :: byte] < packetSize
   \<and> udp_receives queued = 1
   \<and> mem (complete (UdpRecvDone success stranger [1, 2, 3]) queued) (RecvBuf UDP)
       = Some ([1, 2, 3] @ replicate 53 7)
   \<and> trace_of (handle (UdpRecvDone success stranger [1, 2, 3]) queued)
       = Some (trace queued @ [AsyncWrite (Arg 1), AsyncReceiveFrom])"
  by (simp add: trace_of_def step_defs queued_facts success_def failed_def packetSize_def
      recv_into_def)

subsection \<open>One read at a time\<close>

text \<open>
  Claim C4: in every state a session can reach, each endpoint has at most one read or
  receive in flight; when it completes without error the handler first starts the
  forwarding send or write and only then the next read or receive, after which exactly
  one is in flight again.
\<close>

theorem reads_strictly_sequential:
  assumes "connect_sockets this w = Inr s0" and "run schedule s0 = Inr s"
  shows "tcp_reads s \<le> 1 \<and> udp_receives s \<le> 1
     \<and> (\<not> failed ec \<and> enabled (TcpReadDone ec P) s \<longrightarrow>
          (\<exists>s'. handle (TcpReadDone ec P) s = Inr s'
             \<and> trace s' = trace s @ [AsyncSendTo (Arg (arg_count s)) (remote_endpoint s), AsyncRead]
             \<and> tcp_reads s' = 1))
     \<and> (\<not> failed ec \<and> enabled (UdpRecvDone ec sender P) s \<longrightarrow>
          (\<exists>s'. handle (UdpRecvDone ec sender P) s = Inr s'
             \<and> trace s' = trace s @ [AsyncWrite (Arg (arg_count s)), AsyncReceiveFrom]
             \<and> udp_receives s' = 1))"
proof -
  from reachable_inv [OF assms] have inv: "session_inv s" .
  then obtain bt bu where p: "udpServer s = Set" "tcpServer s = Set"
      "mem s (RecvBuf TCP) = Some bt" "mem s (RecvBuf UDP) = Some bu"
    and b: "tcp_reads s \<le> 1" "udp_receives s \<le> 1"
    by (auto simp: session_inv_def)
  have t: "\<not> failed ec \<and> enabled (TcpReadDone ec P) s \<longrightarrow>
          (\<exists>s'. handle (TcpReadDone ec P) s = Inr s'
             \<and> trace s' = trace s @ [AsyncSendTo (Arg (arg_count s)) (remote_endpoint s), AsyncRead]
             \<and> tcp_reads s' = 1)"
    using p b by (auto simp: step_defs)
  have u: "\<not> failed ec \<and> enabled (UdpRecvDone ec sender P) s \<longrightarrow>
          (\<exists>s'. handle (UdpRecvDone ec sender P) s = Inr s'
             \<and> trace s' = trace s @ [AsyncWrite (Arg (arg_count s)), AsyncReceiveFrom]
             \<and> udp_receives s' = 1)"
    using p b by (auto simp: step_defs)
  from b t u show ?thesis by blast
qed

theorem reads_strictly_sequential_witness:
  "tcp_reads established \<le> 1 \<and> udp_receives established \<le> 1
   \<and> \<not> failed success
   \<and> enabled (TcpReadDone success (replicate 56 7)) established
   \<and> enabled (UdpRecvDone success stranger (replicate 56 7)) established
   \<and> (\<exists>s'. handle (TcpReadDone success (replicate 56 7)) established = Inr s'
             \<and> trace s' = trace established @ [AsyncSendTo (Arg 0) (Endpoint loopback 9001), AsyncRead]
             \<and> tcp_reads s' = 1)
   \<and> (\<exists>s'. handle (UdpRecvDone success stranger (replicate 56 7)) established = Inr s'
             \<and> trace s' = trace established @ [AsyncWrite (Arg 0), AsyncReceiveFrom]
             \<and> udp_receives s' = 1)"
proof -
  have e: "\<not> failed success" "enabled (TcpReadDone success (replicate 56 7)) established"
    "enabled (UdpRecvDone success stranger (replicate 56 7)) established"
    by (simp_all add: established_facts success_def failed_def packetSize_def)
  from reads_strictly_sequential [OF connect_sockets_loopback run_connect_wired,
      of success "replicate 56 7" stranger] e
  show ?thesis by (simp add: established_facts)
qed

subsection \<open>Writing to a TCP client without a connection\<close>

text \<open>
  Claim C5: when the TCP socket has no connection (the connect failed, or the socket
  was closed), \<open>handle_write\<close> only copies its argument and starts a write; it does not
  throw. That write can only complete with an error, and its handler, without a fault,
  prints the failure on the error stream and closes the socket, which leaves the
  endpoint without a connection as before and changes nothing else.
\<close>

theorem write_without_connection_is_safe:
  assumes "not_connected s"
  shows "TCP_Client_handle_write P s =
           s\<lparr>mem := (mem s)(Arg (arg_count s) := None),
             arg_count := Suc (arg_count s),
             tcp_writes := tcp_writes s @ [(Arg (arg_count s), True)],
             trace := trace s @ [AsyncWrite (Arg (arg_count s))]\<rparr>
       \<and> (\<forall>t a ws ec. not_connected t \<and> tcp_writes t = (a, True) # ws
              \<and> enabled (TcpWriteDone ec) t \<longrightarrow>
            failed ec
            \<and> handle (TcpWriteDone ec) t =
                Inr (t\<lparr>tcp_writes := ws, tcp_socket := Closed,
                       trace := trace t @ [Cerr (''SocketBridge: TCP writing failed: '' @ show_ec ec),
                                           Close TCP]\<rparr>)
            \<and> not_connected (t\<lparr>tcp_socket := Closed\<rparr>))"
  using assms by (auto simp: step_defs not_connected_def)

theorem write_without_connection_is_safe_witness:
  "not_connected orphaned
   \<and> tcp_writes (TCP_Client_handle_write (replicate 56 7) orphaned) = [(Arg 0, True)]
   \<and> enabled (TcpWriteDone refused) (TCP_Client_handle_write (replicate 56 7) orphaned)
   \<and> trace_of (handle (TcpWriteDone refused) (TCP_Client_handle_write (replicate 56 7) orphaned))
       = Some (trace orphaned @ [AsyncWrite (Arg 0),
                 Cerr ''SocketBridge: TCP writing failed: system:111'', Close TCP])"
proof -
  have n: "not_connected orphaned" by (simp add: not_connected_def orphaned_facts)
  from write_without_connection_is_safe [OF n, of "replicate 56 7"]
  show ?thesis using n
    by (simp add: trace_of_def orphaned_facts not_connected_def refused_def failed_def
        show_ec_def show_int_def to_string.simps digit_def)
qed

subsection \<open>Failed writes and sends\<close>

text \<open>
  Claim C6: a TCP write that completes with an error is reported and the TCP socket is
  closed; a UDP send that completes with an error is only reported: the UDP socket stays
  as it was, the receive in flight stays in flight, and a datagram can be received
  exactly when it could before.
\<close>

theorem write_failure_closes_tcp_send_failure_keeps_udp:
  assumes "failed ec"
  shows "handle (TcpWriteDone ec) s =
           Inr (s\<lparr>tcp_writes := tl (tcp_writes s), tcp_socket := Closed,
                  trace := trace s @ [Cerr (''SocketBridge: TCP writing failed: '' @ show_ec ec),
                                      Close TCP]\<rparr>)
       \<and> handle (UdpSendDone ec) s =
           Inr (s\<lparr>udp_sends := tl (udp_sends s),
                  trace := trace s @ [Cerr (''SocketBridge: UDP sending failed: '' @ show_ec ec)]\<rparr>)
       \<and> (\<exists>s'. handle (UdpSendDone ec) s = Inr s' \<and> udp_open s' = udp_open s
             \<and> udp_receives s' = udp_receives s
             \<and> enabled (UdpRecvDone ec' sender data) s' = enabled (UdpRecvDone ec' sender data) s)"
  using assms by (simp add: step_defs)

theorem write_failure_closes_tcp_send_failure_keeps_udp_witness:
  "failed refused
   \<and> trace_of (handle (TcpWriteDone refused) established)
       = Some (trace established @ [Cerr ''SocketBridge: TCP writing failed: system:111'', Close TCP])
   \<and> trace_of (handle (UdpSendDone refused) established)
       = Some (trace established @ [Cerr ''SocketBridge: UDP sending failed: system:111''])
   \<and> (\<exists>s'. handle (UdpSendDone refused) established = Inr s' \<and> udp_open s'
         \<and> enabled (UdpRecvDone success stranger (replicate 56 7)) s')"
proof -
  have f: "failed refused" by (simp add: refused_def failed_def)
  have o: "udp_open established"
    by (simp add: established_def step_defs wired_def setup_defs example_defs)
  from write_failure_closes_tcp_send_failure_keeps_udp [OF f, of established success stranger "replicate 56 7"]
  show ?thesis using f o
    by (simp add: trace_of_def established_facts refused_def success_def failed_def show_ec_def
        show_int_def to_string.simps digit_def)
qed

subsection \<open>Exceptions at start-up\<close>

text \<open>
  Claim C7: an exception thrown while the endpoints are set up is caught by
  \<open>startConnections\<close>, which prints its text on the error stream and returns normally;
  whatever the schedule, nothing but output lines was produced, so no operation was
  started and nothing was relayed. A resolution that throws and a bind that throws are
  two such cases.
\<close>

theorem construction_failure_is_caught:
  "(\<forall>e s. connect_sockets this w = Inl (e, s) \<longrightarrow>
       startConnections this w schedule = Inr (trace s @ [Cerr (what e)])
       \<and> set (trace s) \<subseteq> range Cout \<union> range Cerr)
   \<and> (\<forall>e. resolve w (tcpIp this) (tcpPort this) = Inl e \<longrightarrow>
       (\<exists>s. connect_sockets this w = Inl (e, s)))
   \<and> (\<forall>eps a e. resolve w (tcpIp this) (tcpPort this) = Inr eps \<and> open_v4 w = None
         \<and> from_string w (udpIp this) = Inr a
         \<and> bind w (Endpoint a (ucast (udpPort this))) = Some e \<longrightarrow>
       (\<exists>s. connect_sockets this w = Inl (e, s)))"
proof (intro conjI allI impI)
  fix e s assume h: "connect_sockets this w = Inl (e, s)"
  then show "startConnections this w schedule = Inr (trace s @ [Cerr (what e)])"
    by (simp add: startConnections_def emit_def)
  from connect_sockets_throws_before_any_operation [OF h]
  show "set (trace s) \<subseteq> range Cout \<union> range Cerr" .
next
  fix e assume "resolve w (tcpIp this) (tcpPort this) = Inl e"
  then show "\<exists>s. connect_sockets this w = Inl (e, s)"
    by (simp add: connect_sockets_def Let_def)
next
  fix eps a e
  assume "resolve w (tcpIp this) (tcpPort this) = Inr eps \<and> open_v4 w = None
         \<and> from_string w (udpIp this) = Inr a
         \<and> bind w (Endpoint a (ucast (udpPort this))) = Some e"
  then show "\<exists>s. connect_sockets this w = Inl (e, s)"
    by (simp add: setup_defs)
qed

theorem construction_failure_is_caught_witness:
  "startConnections loopback_bridge busy_os [UdpRecvDone success stranger (replicate 56 7)]
     = Inr [Cout ''Starting SocketBridge, connecting TCP 127.0.0.1:9000 to UDP 127.0.0.1:9001'',
            Cout ''SocketBridge: UDP Server connected'',
            Cerr ''bind: Address already in use'']"
proof -
  note caught = construction_failure_is_caught [of loopback_bridge busy_os
      "[UdpRecvDone success stranger (replicate 56 7)]"]
  have "resolve busy_os (tcpIp loopback_bridge) (tcpPort loopback_bridge) = Inr [Endpoint loopback 9000]
      \<and> open_v4 busy_os = None
      \<and> from_string busy_os (udpIp loopback_bridge) = Inr loopback
      \<and> bind busy_os (Endpoint loopback (ucast (udpPort loopback_bridge)))
          = Some (Exception ''bind: Address already in use'')"
    by (simp add: loopback_bridge_def loopback_os_def busy_os_def SocketBridge_ctor_def)
  with caught obtain s
    where h: "connect_sockets loopback_bridge busy_os = Inl (Exception ''bind: Address already in use'', s)"
    by blast
  then have "trace s =
      [Cout ''Starting SocketBridge, connecting TCP 127.0.0.1:9000 to UDP 127.0.0.1:9001'',
       Cout ''SocketBridge: UDP Server connected'']"
    by (auto simp: setup_defs example_defs)
  with caught h show ?thesis by simp
qed

subsection \<open>The packet handed over is a copy\<close>

text \<open>
  Both forwarding functions leave an operation in flight whose buffer refers to their
  parameter object, and that object is gone when they return.
\<close>

lemma parameter_object_ends_with_call:
  "last (tcp_writes (TCP_Client_handle_write P s)) = (Arg (arg_count s), not_connected s)
   \<and> mem (TCP_Client_handle_write P s) (Arg (arg_count s)) = None
   \<and> last (udp_sends (UDP_Server_handle_send P s)) = (Arg (arg_count s), remote_endpoint s)
   \<and> mem (UDP_Server_handle_send P s) (Arg (arg_count s)) = None"
  by (simp add: step_defs not_connected_def)


subsection \<open>The pointers between the endpoints\<close>

text \<open>
  Claim C9: \<open>startConnections\<close> sets both pointers before the event loop is entered,
  and they stay set; whatever completions the loop delivers, no handler calls through
  an unset pointer, so \<open>startConnections\<close> never ends with that fault.
\<close>

theorem back_references_set_before_loop:
  "(\<exists>tr. startConnections this w schedule = Inr tr)
   \<and> (\<forall>s0. connect_sockets this w = Inr s0 \<longrightarrow>
        udpServer s0 = Set \<and> tcpServer s0 = Set
        \<and> (\<exists>s. run schedule s0 = Inr s \<and> udpServer s = Set \<and> tcpServer s = Set))"
proof (intro conjI allI impI)
  show "\<exists>tr. startConnections this w schedule = Inr tr"
  proof (cases "connect_sockets this w")
    case (Inl x)
    then show ?thesis by (cases x) (simp add: startConnections_def)
  next
    case (Inr s0)
    from run_inv [OF connect_sockets_inv [OF Inr], of schedule] Inr
    show ?thesis by (auto simp: startConnections_def)
  qed
next
  fix s0 assume h: "connect_sockets this w = Inr s0"
  from connect_sockets_inv [OF h] show "udpServer s0 = Set" by (simp add: session_inv_def)
  from connect_sockets_inv [OF h] show "tcpServer s0 = Set" by (simp add: session_inv_def)
  from run_inv [OF connect_sockets_inv [OF h], of schedule]
  show "\<exists>s. run schedule s0 = Inr s \<and> udpServer s = Set \<and> tcpServer s = Set"
    by (auto simp: session_inv_def)
qed

theorem back_references_set_before_loop_witness:
  "(\<exists>tr. startConnections loopback_bridge loopback_os
            [UdpRecvDone success stranger (replicate 56 7), ConnectDone success,
             TcpReadDone success (replicate 56 7)] = Inr tr)
   \<and> udpServer wired = Set \<and> tcpServer wired = Set"
  using back_references_set_before_loop [of loopback_bridge loopback_os
      "[UdpRecvDone success stranger (replicate 56 7), ConnectDone success,
        TcpReadDone success (replicate 56 7)]"]
    connect_sockets_loopback
  by simp

subsection \<open>After a failed receive\<close>

text \<open>
  Claim C10: when a UDP receive completes with an error, the handler only reports it.
  No receive is started again, but the UDP socket is not closed, now or later, and
  \<open>remote_endpoint_\<close> is unchanged; every TCP read that completes without error
  afterwards still starts a send-to to \<open>remote_endpoint_\<close>.
\<close>

theorem udp_receive_failure_keeps_sending:
  assumes "connect_sockets this w = Inr s0" and "run schedule s0 = Inr s"
    and "failed ec" and "enabled (UdpRecvDone ec sender data) s"
    and "handle (UdpRecvDone ec sender data) s = Inr s1"
    and "run later s1 = Inr s2"
    and "\<not> failed ec'"
  shows "trace s1 = trace s @ [Cerr (''SocketBridge: UDP reading failed: '' @ show_ec ec)]
       \<and> remote_endpoint s1 = remote_endpoint s
       \<and> udp_receives s2 = 0
       \<and> udp_open s2 \<and> Close UDP \<notin> set (trace s2)
       \<and> (\<exists>s3. handle (TcpReadDone ec' P) s2 = Inr s3
             \<and> trace s3 = trace s2 @ [AsyncSendTo (Arg (arg_count s2)) (remote_endpoint s2), AsyncRead]
             \<and> udp_sends s3 = udp_sends s2 @ [(Arg (arg_count s2), remote_endpoint s2)])"
proof -
  from reachable_inv [OF assms(1,2)] have inv: "session_inv s" .
  from handle_inv [OF assms(4) inv] assms(5) have inv1: "session_inv s1" by simp
  from run_inv [OF inv1, of later] assms(6) have inv2: "session_inv s2" by simp
  from inv assms(3,4,5) have a: "trace s1 = trace s @ [Cerr (''SocketBridge: UDP reading failed: '' @ show_ec ec)]"
    and b: "remote_endpoint s1 = remote_endpoint s" and c: "udp_receives s1 = 0"
    by (auto simp: step_defs session_inv_def)
  from run_udp_stopped [OF c assms(6)] have d: "udp_receives s2 = 0" .
  from inv2 have e: "udp_open s2" "Close UDP \<notin> set (trace s2)" "udpServer s2 = Set"
    by (simp_all add: session_inv_def)
  from inv2 obtain bt where g: "mem s2 (RecvBuf TCP) = Some bt"
    by (auto simp: session_inv_def)
  from e(3) g assms(7) have f: "\<exists>s3. handle (TcpReadDone ec' P) s2 = Inr s3
             \<and> trace s3 = trace s2 @ [AsyncSendTo (Arg (arg_count s2)) (remote_endpoint s2), AsyncRead]
             \<and> udp_sends s3 = udp_sends s2 @ [(Arg (arg_count s2), remote_endpoint s2)]"
    by (simp add: step_defs)
  from a b d e(1,2) f show ?thesis by blast
qed

theorem udp_receive_failure_keeps_sending_witness:
  "\<exists>s1 s2 s3. handle (UdpRecvDone refused stranger []) wired = Inr s1
      \<and> run [ConnectDone success] s1 = Inr s2
      \<and> udp_receives s2 = 0 \<and> udp_open s2
      \<and> handle (TcpReadDone success (replicate 56 7)) s2 = Inr s3
      \<and> trace s3 = trace s2 @ [AsyncSendTo (Arg 0) (Endpoint loopback 9001), AsyncRead]"
proof -
  have nf: "\<not> failed success" and f: "failed refused"
    by (simp_all add: success_def refused_def failed_def)
  have r: "run [] wired = Inr wired" by simp
  have en: "enabled (UdpRecvDone refused stranger []) wired"
    by (simp add: wired_facts)
  obtain s1 where h1: "handle (UdpRecvDone refused stranger []) wired = Inr s1"
    using f by (simp add: step_defs)
  from h1 f have f1: "connect_pending s1" "arg_count s1 = 0"
      "remote_endpoint s1 = Endpoint loopback 9001"
    by (auto simp: step_defs wired_facts)
  obtain s2 where h2: "run [ConnectDone success] s1 = Inr s2"
    using nf f1 by (simp add: step_defs)
  from h2 nf f1 have f2: "arg_count s2 = 0" "remote_endpoint s2 = Endpoint loopback 9001"
    by (auto simp: step_defs)
  from udp_receive_failure_keeps_sending [OF connect_sockets_loopback r f en h1 h2 nf,
      of "replicate 56 7"] h1 h2 f2
  show ?thesis by auto
qed

end
